theory Spec2Isabelle
  imports Complex_Main
begin

section \<open>Data model of \<^verbatim>\<open>gui.py\<close>\<close>

text \<open>
  The session core of the trading client lives in the class \<^verbatim>\<open>TradingPage\<close>: the
  readiness display, the begin and stop commands, the polling loop \<^verbatim>\<open>_scalp_loop\<close> and the
  order submission \<^verbatim>\<open>_execute_trade\<close>. The equity values, on which the loop does arithmetic,
  are binary64 floats with their rounding (type \<open>float64\<close> below). Prices, sizes and pip
  distances are only handed on to the trader and the strategy; they are finite floats and
  are modelled by the reals they denote. Counters are Python integers and are modelled as
  \<^typ>\<open>int\<close>. Wall-clock effects (\<^verbatim>\<open>time.sleep\<close>, the
  time stamp of a log line, the \<^verbatim>\<open>after\<close> timers) and message boxes are left out.
\<close>

subsection \<open>Python floats\<close>

text \<open>
  A Python float is an IEEE 754 binary64 value: \<open>Finite x\<close> is the finite value \<open>x\<close>, the
  other constructors are the two infinities and NaN. The two zeros are one value here: the
  operations below give the same result for both.
\<close>

datatype float64 = Finite real | PosInf | NegInf | NaN

text \<open>Rounding of a real to an integer, to nearest and to the even neighbour on a tie.\<close>

definition round_even :: "real \<Rightarrow> int" where
  "round_even x =
     (let f = \<lfloor>x\<rfloor>; r = x - of_int f
      in if r < 1 / 2 then f else if 1 / 2 < r then f + 1 else if even f then f else f + 1)"

text \<open>
  The distance between neighbouring binary64 values at the magnitude of \<open>x \<noteq> 0\<close>:
  \<open>2 powi (e - 52)\<close> where \<open>2 powi e \<le> \<bar>x\<bar> < 2 powi (e + 1)\<close> (53 significant bits), and
  \<open>2 powi (- 1074)\<close> in the subnormal range.
\<close>

definition quantum :: "real \<Rightarrow> real" where
  "quantum x = 2 powi (max (\<lfloor>log 2 \<bar>x\<bar>\<rfloor> - 52) (- 1074))"

text \<open>
  The binary64 value of an exact result: the nearest multiple of the quantum, ties to even;
  a rounded magnitude of \<open>2 ^ 1024\<close> is beyond the largest finite value and overflows.
\<close>

definition round64 :: "real \<Rightarrow> float64" where
  "round64 x =
     (if x = 0 then Finite 0
      else
        (let q = quantum x; r = of_int (round_even (x / q)) * q
         in if 2 ^ 1024 \<le> r then PosInf
            else if r \<le> - (2 ^ 1024) then NegInf
            else Finite r))"

text \<open>Python's \<^verbatim>\<open>a - b\<close> on floats: the exact difference, rounded.\<close>

fun fsub :: "float64 \<Rightarrow> float64 \<Rightarrow> float64" where
  "fsub (Finite a) (Finite b) = round64 (a - b)"
| "fsub NaN _ = NaN"
| "fsub _ NaN = NaN"
| "fsub PosInf PosInf = NaN"
| "fsub NegInf NegInf = NaN"
| "fsub PosInf _ = PosInf"
| "fsub NegInf _ = NegInf"
| "fsub (Finite a) PosInf = NegInf"
| "fsub (Finite a) NegInf = PosInf"

text \<open>Python's \<^verbatim>\<open>a >= b\<close> on floats: false whenever a NaN is involved.\<close>

fun fge :: "float64 \<Rightarrow> float64 \<Rightarrow> bool" where
  "fge (Finite a) (Finite b) = (b \<le> a)"
| "fge NaN _ = False"
| "fge _ NaN = False"
| "fge PosInf _ = True"
| "fge _ NegInf = True"
| "fge NegInf _ = False"
| "fge (Finite a) PosInf = False"

subsection \<open>The page, the queue and the collaborators\<close>

datatype button_state = Normal | Disabled

text \<open>The foreground of the readiness label; \<open>Unset\<close> until the first update configures it.\<close>

datatype colour = Unset | Gray | Green | Orange

text \<open>
  One constructor per f-string that the modelled methods log; the fields are the
  interpolated values, in the order in which they appear in the text.
  \<^item> \<open>TradeSkipped\<close>: "Trade execution skipped: Market price is unavailable."
  \<^item> \<open>Attempting side size symbol\<close>: "Attempting to place market order: SIDE size lots of symbol"
    (the side is upper-cased when printed)
  \<^item> \<open>OrderSuccessful m\<close>: "Order request successful: m"
  \<^item> \<open>OrderFailed m\<close>: "Order request failed: m"
  \<^item> \<open>ErrorClosing e\<close>: "Error closing positions: e"
  \<^item> \<open>BatchTargetReached\<close>: "Batch profit target reached. Closing positions."
  \<^item> \<open>StrategySignal a s\<close>: "Strategy signal: A for s." (the action is upper-cased when printed)
  \<^item> \<open>StrategyCreated n\<close>: "Strategy created: n"
  \<^item> \<open>DataReadinessChecking s r a\<close>: "[DataReadiness] Checking for s. Required: r. Available: a"
\<close>

datatype log_msg =
    TradeSkipped
  | Attempting string real string
  | OrderSuccessful string
  | OrderFailed string
  | ErrorClosing string
  | BatchTargetReached
  | StrategySignal string string
  | StrategyCreated string
  | DataReadinessChecking string "(string \<times> int) list" "(string \<times> int) list"

text \<open>
  The argument tuple of \<^verbatim>\<open>_execute_trade\<close>, as \<^verbatim>\<open>_scalp_loop\<close> puts it on the queue:
  (side, symbol, price, size_lots, tp, sl, sl_offset, tp_offset, comment).
\<close>

type_synonym trade_tuple =
  "string \<times> string \<times> real option \<times> real \<times> real \<times> real \<times> real option \<times> real option \<times> string"

text \<open>The two kinds of message that the session loop puts on \<^verbatim>\<open>controller._ui_queue\<close>.\<close>

datatype ui_msg = QLog log_msg | QExecuteTrade trade_tuple

text \<open>
  The calls that the modelled methods make on the trader, in the order made.
  \<open>PlaceMarketOrder\<close> carries the keyword arguments symbol_name, volume_lots, side,
  take_profit_pips, stop_loss_pips. \<open>Decide\<close> is the call of the strategy's decision
  function with the symbol and the current tick price.
\<close>

datatype call =
    GetOhlcBarCounts string
  | GetAccountSummary
  | CloseAllPositions
  | GetMarketPrice string
  | Decide string real
  | PlaceMarketOrder string real string real real

text \<open>
  The trader (module \<^verbatim>\<open>trading\<close>) is a collaborator whose code is not part of the file:
  it is a parameter of the model. Its state has an arbitrary type \<open>'b\<close>, and every method
  is a function from the state before the call to the result and the state after it.
  A dict is an association list read with \<^const>\<open>map_of\<close>; a value that may be
  \<^verbatim>\<open>None\<close> is an option. \<open>close_all_positions\<close> returns \<open>Some e\<close> when it raises an
  \<^verbatim>\<open>Exception\<close> whose text is \<open>e\<close>: it is the only call that the source guards with
  \<^verbatim>\<open>try\<close>, the others are taken to return.
\<close>

record 'b trader =
  is_connected :: "'b \<Rightarrow> bool"
  get_ohlc_bar_counts :: "string \<Rightarrow> 'b \<Rightarrow> (string \<times> int) list \<times> 'b"
  get_account_summary :: "'b \<Rightarrow> (string \<times> float64 option) list \<times> 'b"
  close_all_positions :: "'b \<Rightarrow> string option \<times> 'b"
  get_market_price :: "string \<Rightarrow> 'b \<Rightarrow> real option \<times> 'b"
  place_market_order :: "string \<Rightarrow> real \<Rightarrow> string \<Rightarrow> real \<Rightarrow> real \<Rightarrow> 'b \<Rightarrow> (bool \<times> string) \<times> 'b"

text \<open>
  What \<^verbatim>\<open>strategy.decide\<close> returns when it returns a non-empty dict: the entries that
  the loop reads with \<^verbatim>\<open>.get\<close>. \<open>None\<close> is an absent key or a \<^verbatim>\<open>None\<close> value; for
  \<open>comment\<close>, which the loop reads with the default \<^verbatim>\<open>''\<close>, it is the absent key.
\<close>

record action_details =
  action :: "string option"
  sl_offset :: "real option"
  tp_offset :: "real option"
  comment :: "string option"

text \<open>
  A strategy instance (module \<^verbatim>\<open>strategies\<close>, also a parameter). \<open>decide\<close> takes the
  symbol, the current tick price and the trader, whose state holds the bar history and the
  equity that the loop passes along; it returns \<open>None\<close> for \<^verbatim>\<open>None\<close>, an empty dict or a
  value that is not a dict, which the loop all skips.
\<close>

record 'b strategy =
  NAME :: string
  get_required_bars :: "(string \<times> int) list"
  decide :: "string \<Rightarrow> real \<Rightarrow> 'b \<Rightarrow> action_details option \<times> 'b"

record 'b strategies =
  SafeStrategy :: "'b strategy"
  ModerateStrategy :: "'b strategy"
  AggressiveStrategy :: "'b strategy"
  MomentumStrategy :: "'b strategy"
  MeanReversionStrategy :: "'b strategy"

definition strategy_map :: "'b strategies \<Rightarrow> (string \<times> 'b strategy) list" where
  "strategy_map S =
     [(''Safe'', SafeStrategy S), (''Moderate'', ModerateStrategy S),
      (''Aggressive'', AggressiveStrategy S), (''Momentum'', MomentumStrategy S),
      (''Mean Reversion'', MeanReversionStrategy S)]"

text \<open>
  The text of the readiness label: the status messages joined by ", " and the suffix
  " (Ready)" (\<open>True\<close>) or " (Waiting...)" (\<open>False\<close>). \<open>TfStatus tf a r\<close> is the message
  "tf: a/r".
\<close>

datatype status_msg = NoBarsRequired | TfStatus string int int

datatype readiness_text =
    Initializing
  | TraderDisconnected
  | SelectStrategy
  | Status "status_msg list" bool

text \<open>
  The state that the modelled methods read and write: the fields of the page, the queue of
  the controller, the state of the trader and the trace of the calls made on it.
\<close>

record 'b world =
  is_scalping :: bool
  symbol_var :: string
  tp_var :: real
  size_var :: real
  sl_var :: real
  batch_profit_var :: float64
  strategy_var :: string
  data_readiness_var :: readiness_text
  data_readiness_label :: colour
  start_button :: button_state
  stop_button :: button_state
  trades_var :: int
  output_text :: "log_msg list"
  total_pnl :: real
  total_trades :: int
  wins :: int
  current_batch_trades :: int
  batch_start_equity :: float64
  batch_size :: int
  ui_queue :: "ui_msg list"
  broker :: 'b
  calls :: "call list"

text \<open>\<^verbatim>\<open>TradingPage.__init__\<close>, with the configured batch profit target and the trader's state.\<close>

definition init :: "float64 \<Rightarrow> 'b \<Rightarrow> 'b world" where
  "init batch_profit_target b =
     \<lparr> is_scalping = False, symbol_var = ''Loading symbols...'', tp_var = 10, size_var = 1,
       sl_var = 5, batch_profit_var = batch_profit_target, strategy_var = ''Safe'',
       data_readiness_var = Initializing, data_readiness_label = Unset,
       start_button = Normal, stop_button = Disabled, trades_var = 0, output_text = [],
       total_pnl = 0, total_trades = 0, wins = 0, current_batch_trades = 0,
       batch_start_equity = Finite 0, batch_size = 5, ui_queue = [], broker = b, calls = [] \<rparr>"

section \<open>Operations\<close>

text \<open>\<^verbatim>\<open>_log\<close>: append a line to the output widget.\<close>

definition log_line :: "log_msg \<Rightarrow> 'b world \<Rightarrow> 'b world" where
  "log_line msg w = w\<lparr>output_text := output_text w @ [msg]\<rparr>"

text \<open>\<^verbatim>\<open>self.controller._ui_queue.put\<close>.\<close>

definition put :: "ui_msg \<Rightarrow> 'b world \<Rightarrow> 'b world" where
  "put m w = w\<lparr>ui_queue := ui_queue w @ [m]\<rparr>"

text \<open>\<^verbatim>\<open>symbol_var.get().replace("/", "")\<close>.\<close>

definition symbol_of :: "'b world \<Rightarrow> string" where
  "symbol_of w = filter (\<lambda>c. c \<noteq> CHR ''/'') (symbol_var w)"

text \<open>
  \<^verbatim>\<open>summary.get("equity", 0.0) or 0.0\<close>: a missing, \<^verbatim>\<open>None\<close> or zero entry gives 0.0; any
  other float, NaN and the infinities included, is true in Python and is kept.
\<close>

definition equity_or_zero :: "(string \<times> float64 option) list \<Rightarrow> float64" where
  "equity_or_zero summary =
     (case map_of summary ''equity'' of
        None \<Rightarrow> Finite 0
      | Some None \<Rightarrow> Finite 0
      | Some (Some e) \<Rightarrow> if e = Finite 0 then Finite 0 else e)"

subsection \<open>Readiness gate\<close>

text \<open>
  The loop of \<^verbatim>\<open>_update_data_readiness_display\<close> over \<^verbatim>\<open>required_bars_map.items()\<close>:
  it carries \<^verbatim>\<open>all_ready\<close> and \<^verbatim>\<open>status_messages\<close>.
  \<open>get_or_zero\<close> is \<^verbatim>\<open>available_bars_map.get(tf, 0)\<close>.
\<close>

definition get_or_zero :: "(string \<times> int) list \<Rightarrow> string \<Rightarrow> int" where
  "get_or_zero available_bars_map tf = (case map_of available_bars_map tf of None \<Rightarrow> 0 | Some n \<Rightarrow> n)"

fun readiness_loop ::
  "(string \<times> int) list \<Rightarrow> (string \<times> int) list \<Rightarrow> bool \<times> status_msg list \<Rightarrow> bool \<times> status_msg list"
where
  "readiness_loop [] available_bars_map (all_ready, status_messages) = (all_ready, status_messages)"
| "readiness_loop ((tf, required_count) # rest) available_bars_map (all_ready, status_messages) =
     (let available_count = get_or_zero available_bars_map tf
      in readiness_loop rest available_bars_map
           (if available_count < required_count then False else all_ready,
            status_messages @ [TfStatus tf available_count required_count]))"

text \<open>Lines 481 to 489: an empty requirement map is ready, with one fixed message.\<close>

definition readiness :: "(string \<times> int) list \<Rightarrow> (string \<times> int) list \<Rightarrow> bool \<times> status_msg list" where
  "readiness required_bars_map available_bars_map =
     (if required_bars_map = [] then (True, [NoBarsRequired])
      else readiness_loop required_bars_map available_bars_map (True, []))"

definition update_data_readiness_display ::
  "'b trader \<Rightarrow> 'b strategies \<Rightarrow> 'b world \<Rightarrow> 'b world"
where
  "update_data_readiness_display tr S w =
     (if \<not> is_connected tr (broker w) then
        w\<lparr>data_readiness_var := TraderDisconnected, data_readiness_label := Gray,
          start_button := Disabled\<rparr>
      else
        (case map_of (strategy_map S) (strategy_var w) of
           None \<Rightarrow> w\<lparr>data_readiness_var := SelectStrategy, start_button := Disabled\<rparr>
         | Some strategy_instance \<Rightarrow>
             (let required_bars_map = get_required_bars strategy_instance;
                  symbol = symbol_of w;
                  (available_bars_map, b1) = get_ohlc_bar_counts tr symbol (broker w);
                  w1 = w\<lparr>broker := b1, calls := calls w @ [GetOhlcBarCounts symbol]\<rparr>;
                  w2 = log_line (DataReadinessChecking symbol required_bars_map available_bars_map) w1;
                  (all_ready, status_messages) = readiness required_bars_map available_bars_map
              in if all_ready then
                   w2\<lparr>data_readiness_var := Status status_messages True,
                      data_readiness_label := Green,
                      start_button := (if \<not> is_scalping w2 then Normal else Disabled)\<rparr>
                 else
                   w2\<lparr>data_readiness_var := Status status_messages False,
                      data_readiness_label := Orange,
                      start_button := Disabled\<rparr>)))"

subsection \<open>Begin and stop\<close>

definition toggle_scalping_ui :: "bool \<Rightarrow> 'b world \<Rightarrow> 'b world" where
  "toggle_scalping_ui on w =
     w\<lparr>is_scalping := on,
       start_button := (if on then Disabled else Normal),
       stop_button := (if on then Normal else Disabled)\<rparr>"

text \<open>
  \<^verbatim>\<open>try: self.trader.close_all_positions() except Exception as e: ...\<close>, with what the
  handler does with the text of the exception as a parameter.
\<close>

definition try_close_all_positions ::
  "'b trader \<Rightarrow> (string \<Rightarrow> 'b world \<Rightarrow> 'b world) \<Rightarrow> 'b world \<Rightarrow> 'b world"
where
  "try_close_all_positions tr handler w =
     (let (exc, b1) = close_all_positions tr (broker w);
          w1 = w\<lparr>broker := b1, calls := calls w @ [CloseAllPositions]\<rparr>
      in case exc of None \<Rightarrow> w1 | Some e \<Rightarrow> handler e w1)"

definition stop_scalping :: "'b trader \<Rightarrow> 'b world \<Rightarrow> 'b world" where
  "stop_scalping tr w =
     (if is_scalping w then
        try_close_all_positions tr (\<lambda>e. log_line (ErrorClosing e)) (toggle_scalping_ui False w)
      else w)"

text \<open>
  \<^verbatim>\<open>start_scalping\<close> returns the new state and, when it starts the worker thread, the
  arguments of \<^verbatim>\<open>_scalp_loop\<close>: (symbol, tp, sl, size_lots, strategy, batch_target).
\<close>

definition start_scalping ::
  "'b trader \<Rightarrow> 'b strategies \<Rightarrow> 'b world \<Rightarrow>
     'b world \<times> (string \<times> real \<times> real \<times> real \<times> 'b strategy \<times> float64) option"
where
  "start_scalping tr S w =
     (case map_of (strategy_map S) (strategy_var w) of
        None \<Rightarrow> (w, None)
      | Some strategy \<Rightarrow>
          (let w1 = log_line (StrategyCreated (NAME strategy)) w;
               (summary, b1) = get_account_summary tr (broker w1);
               w2 = w1\<lparr>broker := b1, calls := calls w1 @ [GetAccountSummary]\<rparr>;
               w3 = w2\<lparr>batch_start_equity := equity_or_zero summary\<rparr>;
               w4 = w3\<lparr>current_batch_trades := 0\<rparr>
           in (toggle_scalping_ui True w4,
               Some (symbol_of w, tp_var w, sl_var w, size_var w, strategy, batch_profit_var w))))"

subsection \<open>Order submission\<close>

definition execute_trade ::
  "'b trader \<Rightarrow> string \<Rightarrow> string \<Rightarrow> real option \<Rightarrow> real \<Rightarrow> real \<Rightarrow> real \<Rightarrow>
     real option \<Rightarrow> real option \<Rightarrow> string \<Rightarrow> 'b world \<Rightarrow> 'b world"
where
  "execute_trade tr side symbol price size_lots tp_pips_gui sl_pips_gui
       sl_offset_strategy tp_offset_strategy strategy_comment w =
     (if price = None then log_line TradeSkipped w
      else
        (let final_tp_pips = (case tp_offset_strategy of Some t \<Rightarrow> t | None \<Rightarrow> tp_pips_gui);
             final_sl_pips = (case sl_offset_strategy of Some s \<Rightarrow> s | None \<Rightarrow> sl_pips_gui);
             w1 = log_line (Attempting side size_lots symbol) w;
             ((success, message), b1) =
               place_market_order tr symbol size_lots side final_tp_pips final_sl_pips (broker w1);
             w2 = w1\<lparr>broker := b1,
                     calls := calls w1 @ [PlaceMarketOrder symbol size_lots side final_tp_pips final_sl_pips]\<rparr>
         in if success then
              (let w3 = log_line (OrderSuccessful message) w2;
                   w4 = w3\<lparr>total_trades := total_trades w3 + 1\<rparr>;
                   w5 = w4\<lparr>trades_var := total_trades w4\<rparr>
               in w5\<lparr>current_batch_trades := current_batch_trades w5 + 1\<rparr>)
            else log_line (OrderFailed message) w2))"

subsection \<open>Session loop\<close>

text \<open>Lines 589 to 597: the batch check at the top of an iteration.\<close>

definition batch_check :: "'b trader \<Rightarrow> float64 \<Rightarrow> 'b world \<Rightarrow> 'b world" where
  "batch_check tr batch_target w =
     (if current_batch_trades w \<ge> batch_size w then
        (let (summary, b1) = get_account_summary tr (broker w);
             w1 = w\<lparr>broker := b1, calls := calls w @ [GetAccountSummary]\<rparr>;
             equity = equity_or_zero summary
         in if fge (fsub equity (batch_start_equity w1)) batch_target then
              (let w2 = put (QLog BatchTargetReached) w1;
                   w3 = try_close_all_positions tr (\<lambda>e. put (QLog (ErrorClosing e))) w2;
                   w4 = w3\<lparr>batch_start_equity := equity\<rparr>
               in w4\<lparr>current_batch_trades := 0\<rparr>)
            else w1)
      else w)"

text \<open>Lines 599 to 615: price, decision and the publication of the trade request.\<close>

definition tick :: "'b trader \<Rightarrow> string \<Rightarrow> real \<Rightarrow> real \<Rightarrow> real \<Rightarrow> 'b strategy \<Rightarrow> 'b world \<Rightarrow> 'b world" where
  "tick tr symbol tp sl size_lots strategy w =
     (let (current_tick_price, b1) = get_market_price tr symbol (broker w);
          w1 = w\<lparr>broker := b1, calls := calls w @ [GetMarketPrice symbol]\<rparr>
      in case current_tick_price of
           None \<Rightarrow> w1
         | Some p \<Rightarrow>
             (let (details, b2) = decide strategy symbol p (broker w1);
                  w2 = w1\<lparr>broker := b2, calls := calls w1 @ [Decide symbol p]\<rparr>
              in case details of
                   None \<Rightarrow> w2
                 | Some action_details \<Rightarrow>
                     (case action action_details of
                        None \<Rightarrow> w2
                      | Some trade_action \<Rightarrow>
                          if trade_action = ''buy'' \<or> trade_action = ''sell'' then
                            put (QExecuteTrade
                                   (trade_action, symbol, current_tick_price, size_lots, tp, sl,
                                    sl_offset action_details, tp_offset action_details,
                                    (case comment action_details of None \<Rightarrow> [] | Some c \<Rightarrow> c)))
                              (put (QLog (StrategySignal trade_action symbol)) w2)
                          else w2)))"

text \<open>The body of the \<^verbatim>\<open>while\<close> loop of \<^verbatim>\<open>_scalp_loop\<close>.\<close>

definition scalp_loop_body ::
  "'b trader \<Rightarrow> string \<Rightarrow> real \<Rightarrow> real \<Rightarrow> real \<Rightarrow> 'b strategy \<Rightarrow> float64 \<Rightarrow> 'b world \<Rightarrow> 'b world"
where
  "scalp_loop_body tr symbol tp sl size_lots strategy batch_target w =
     tick tr symbol tp sl size_lots strategy (batch_check tr batch_target w)"

text \<open>
  \<^verbatim>\<open>MainApplication._process_ui_queue\<close>, for the two kinds of message that the session loop
  sends: it takes the messages off the queue in arrival order and calls the handler of each
  until the queue is empty. No handler puts a message on the queue.
\<close>

fun dispatch :: "'b trader \<Rightarrow> ui_msg \<Rightarrow> 'b world \<Rightarrow> 'b world" where
  "dispatch tr (QLog data) w = log_line data w"
| "dispatch tr (QExecuteTrade (side, symbol, price, size_lots, tp_pips_gui, sl_pips_gui,
                               sl_offset_strategy, tp_offset_strategy, strategy_comment)) w =
     execute_trade tr side symbol price size_lots tp_pips_gui sl_pips_gui
       sl_offset_strategy tp_offset_strategy strategy_comment w"

definition process_ui_queue :: "'b trader \<Rightarrow> 'b world \<Rightarrow> 'b world" where
  "process_ui_queue tr w = fold (dispatch tr) (ui_queue w) (w\<lparr>ui_queue := []\<rparr>)"

text \<open>
  The operations that write the state: the callbacks of the user interface (the stop and
  begin commands, the processing of the queue, the readiness update, a direct call of
  \<^verbatim>\<open>_execute_trade\<close>) and one pass of a worker thread through its \<^verbatim>\<open>while\<close>: the test of
  the flag and, when it is set, the body. The begin command starts a new worker; its passes
  are \<open>Iteration\<close> operations with the arguments that \<open>start_scalping\<close> returns.
\<close>

datatype 'b operation =
    StopScalping
  | StartScalping
  | ProcessUiQueue
  | UpdateDataReadiness
  | Iteration string real real real "'b strategy" float64
  | ExecuteTrade trade_tuple

fun run_op :: "'b trader \<Rightarrow> 'b strategies \<Rightarrow> 'b operation \<Rightarrow> 'b world \<Rightarrow> 'b world" where
  "run_op tr S StopScalping w = stop_scalping tr w"
| "run_op tr S StartScalping w = fst (start_scalping tr S w)"
| "run_op tr S ProcessUiQueue w = process_ui_queue tr w"
| "run_op tr S UpdateDataReadiness w = update_data_readiness_display tr S w"
| "run_op tr S (Iteration symbol tp sl size_lots strategy batch_target) w =
     (if is_scalping w then scalp_loop_body tr symbol tp sl size_lots strategy batch_target w else w)"
| "run_op tr S (ExecuteTrade args) w = dispatch tr (QExecuteTrade args) w"

definition run_ops :: "'b trader \<Rightarrow> 'b strategies \<Rightarrow> 'b operation list \<Rightarrow> 'b world \<Rightarrow> 'b world" where
  "run_ops tr S ops w = fold (run_op tr S) ops w"

text \<open>
  \<^verbatim>\<open>_scalp_loop\<close>: \<^verbatim>\<open>while self.is_scalping: body\<close>, for one worker. The body never writes
  \<^verbatim>\<open>is_scalping\<close>, so whether the worker leaves depends on what the other threads did since
  its last test of the flag. The schedule gives, for each iteration of this worker, the
  operations of the main thread and of other workers that run before its next test of the
  flag, the begin command included. Interleavings inside an iteration are not modelled. The
  result is \<open>Some\<close> of the final state when the loop returns, and \<open>None\<close> when the worker is
  still running at the end of the schedule.
\<close>

fun scalp_loop ::
  "'b trader \<Rightarrow> 'b strategies \<Rightarrow> string \<Rightarrow> real \<Rightarrow> real \<Rightarrow> real \<Rightarrow> 'b strategy \<Rightarrow> float64 \<Rightarrow>
     'b operation list list \<Rightarrow> 'b world \<Rightarrow> 'b world option"
where
  "scalp_loop tr S symbol tp sl size_lots strategy batch_target [] w =
     (if is_scalping w then None else Some w)"
| "scalp_loop tr S symbol tp sl size_lots strategy batch_target (ops # sched) w =
     (if is_scalping w then
        scalp_loop tr S symbol tp sl size_lots strategy batch_target sched
          (run_ops tr S ops (scalp_loop_body tr symbol tp sl size_lots strategy batch_target w))
      else Some w)"

text \<open>The calls that a step from \<open>w\<close> to \<open>w'\<close> added to the trace.\<close>

definition new_calls :: "'b world \<Rightarrow> 'b world \<Rightarrow> call list" where
  "new_calls w w' = drop (length (calls w)) (calls w')"

text \<open>The messages that a step from \<open>w\<close> to \<open>w'\<close> put on the queue.\<close>

definition new_msgs :: "'b world \<Rightarrow> 'b world \<Rightarrow> ui_msg list" where
  "new_msgs w w' = drop (length (ui_queue w)) (ui_queue w')"

section \<open>A small broker for concrete runs\<close>

text \<open>
  A trader whose state is the equity, the price it quotes, whether it accepts orders, the
  exception that closing raises (if any) and its bar counts. Closing all positions costs
  one unit of equity, as a close at a worse price than the last mark would.
\<close>

record sim =
  sim_equity :: real
  sim_price :: "real option"
  sim_accept :: bool
  sim_close_error :: "string option"
  sim_bars :: "(string \<times> int) list"

definition sim_trader :: "sim trader" where
  "sim_trader =
     \<lparr> is_connected = (\<lambda>b. True),
       get_ohlc_bar_counts = (\<lambda>symbol b. (sim_bars b, b)),
       get_account_summary = (\<lambda>b. ([(''equity'', Some (Finite (sim_equity b)))], b)),
       close_all_positions = (\<lambda>b. (sim_close_error b, b\<lparr>sim_equity := sim_equity b - 1\<rparr>)),
       get_market_price = (\<lambda>symbol b. (sim_price b, b)),
       place_market_order = (\<lambda>symbol_name volume_lots side take_profit_pips stop_loss_pips b.
         ((sim_accept b, if sim_accept b then ''filled'' else ''rejected''), b)) \<rparr>"

definition sim_broker :: "real \<Rightarrow> sim" where
  "sim_broker e =
     \<lparr> sim_equity = e, sim_price = Some 1.1, sim_accept = True, sim_close_error = None,
       sim_bars = [(''1m'', 25), (''15s'', 9)] \<rparr>"

text \<open>A strategy that always buys with a stop of 3 pips and no target of its own.\<close>

definition sim_strategy :: "sim strategy" where
  "sim_strategy =
     \<lparr> NAME = ''Safe'', get_required_bars = [(''1m'', 20), (''15s'', 10)],
       decide = (\<lambda>symbol p b.
         (Some \<lparr>action = Some ''buy'', sl_offset = Some 3, tp_offset = None, comment = None\<rparr>, b)) \<rparr>"

definition sim_strategies :: "sim strategies" where
  "sim_strategies =
     \<lparr> SafeStrategy = sim_strategy, ModerateStrategy = sim_strategy,
       AggressiveStrategy = sim_strategy, MomentumStrategy = sim_strategy,
       MeanReversionStrategy = sim_strategy \<rparr>"

text \<open>
  A running session with five trades in the batch, a baseline of 1000 and the given equity
  at the broker.
\<close>

definition sim_world :: "real \<Rightarrow> sim world" where
  "sim_world e =
     (init (Finite 50) (sim_broker e))
       \<lparr>is_scalping := True, start_button := Disabled, stop_button := Normal,
        total_trades := 5, trades_var := 5, current_batch_trades := 5,
        batch_start_equity := Finite 1000\<rparr>"

text \<open>The same session with a broker whose \<open>close_all_positions\<close> raises.\<close>

definition sim_failing :: "sim world" where
  "sim_failing = (sim_world 1000)\<lparr>broker := (sim_broker 1000)\<lparr>sim_close_error := Some ''timeout''\<rparr>\<rparr>"

text \<open>A short run: begin, one iteration that publishes a trade, and the queue processed.\<close>

definition sim_ops :: "sim operation list" where
  "sim_ops = [StartScalping, Iteration ''EURUSD'' 10 5 1 sim_strategy (Finite 50), ProcessUiQueue]"

text \<open>
  The values that Python gives the literals \<^verbatim>\<open>10.6\<close>, \<^verbatim>\<open>2.18\<close> and \<^verbatim>\<open>8.42\<close>.
\<close>

definition f10_6 :: real where "f10_6 = 5967269506265907 / 562949953421312"

definition f2_18 :: real where "f2_18 = 4908923593833841 / 2251799813685248"

definition f8_42 :: real where "f8_42 = 4740038607807447 / 562949953421312"

text \<open>The values of the literals \<^verbatim>\<open>1050.1\<close> and \<^verbatim>\<open>50.1\<close>.\<close>

definition f1050_1 :: real where "f1050_1 = 2309194320655155 / 2199023255552"

definition f50_1 :: real where "f50_1 = 7050948166601933 / 140737488355328"

section \<open>Binary64 arithmetic on concrete values\<close>

lemma floor_log2_eqI:
  assumes "2 powi e \<le> x" and "x < 2 powi (e + 1)"
  shows "\<lfloor>log 2 x\<rfloor> = e"
proof -
  have "(0::real) < 2 powi e" by simp
  then have pos: "0 < x" using assms(1) by linarith
  have "2 powr (of_int e) \<le> x"
    using assms(1) powr_real_of_int' [of 2 e] by simp
  moreover have "x < 2 powr (of_int e + 1)"
    using assms(2) powr_real_of_int' [of 2 "e + 1"] by simp
  ultimately show ?thesis using pos
    by (subst floor_log_eq_powr_iff) simp_all
qed

text \<open>
  How \<open>round64\<close> is computed at a given normal value: name the exponent \<open>e\<close> and the
  quantum \<open>q\<close>, and round the quotient.
\<close>

lemma round64_eqI:
  assumes "2 powi e \<le> \<bar>x\<bar>" and "\<bar>x\<bar> < 2 powi (e + 1)" and "- 1022 \<le> e"
    and "2 powi (e - 52) = q"
    and "r = of_int (round_even (x / q)) * q"
    and "\<bar>r\<bar> < 2 ^ 1024"
  shows "round64 x = Finite r"
proof -
  have "(0::real) < 2 powi e" by simp
  then have nz: "x \<noteq> 0" using assms(1) by linarith
  have "\<lfloor>log 2 \<bar>x\<bar>\<rfloor> = e" using assms(1,2) by (rule floor_log2_eqI)
  moreover have "max (e - 52) (- 1074) = e - 52" using assms(3) by simp
  ultimately have q: "quantum x = q"
    using assms(4) by (simp add: quantum_def)
  have "\<not> 2 ^ 1024 \<le> r" "\<not> r \<le> - (2 ^ 1024)" using assms(6) by linarith+
  then show ?thesis
    using nz assms(5) by (simp add: round64_def q Let_def)
qed

lemma fsub_same: "fsub (Finite a) (Finite a) = Finite 0"
  by (simp add: round64_def)

lemma fsub_1050_1000: "fsub (Finite 1050) (Finite 1000) = Finite 50"
  unfolding fsub.simps
  by (rule round64_eqI [where e = 5 and q = "1 / 140737488355328"])
     (simp_all add: round_even_def Let_def power_int_def power_divide)

lemma fsub_1049_1000: "fsub (Finite 1049) (Finite 1000) = Finite 49"
  unfolding fsub.simps
  by (rule round64_eqI [where e = 5 and q = "1 / 140737488355328"])
     (simp_all add: round_even_def Let_def power_int_def power_divide)

text \<open>
  A case where the rounding decides. The literals \<^verbatim>\<open>10.6\<close>, \<^verbatim>\<open>2.18\<close> and \<^verbatim>\<open>8.42\<close> denote
  the binary64 values \<open>f10_6\<close>, \<open>f2_18\<close> and \<open>f8_42\<close>. The exact difference of the first two
  is below the third, but it rounds to the third, so Python's
  \<^verbatim>\<open>10.6 - 2.18 >= 8.42\<close> is true, and so is the test of the model.
\<close>

lemma literal_values:
  "round64 10.6 = Finite f10_6" "round64 2.18 = Finite f2_18" "round64 8.42 = Finite f8_42"
proof -
  show "round64 10.6 = Finite f10_6"
    by (rule round64_eqI [where e = 3 and q = "1 / 562949953421312"])
       (simp_all add: f10_6_def round_even_def Let_def power_int_def power_divide)
  show "round64 2.18 = Finite f2_18"
    by (rule round64_eqI [where e = 1 and q = "1 / 2251799813685248"])
       (simp_all add: f2_18_def round_even_def Let_def power_int_def power_divide)
  show "round64 8.42 = Finite f8_42"
    by (rule round64_eqI [where e = 3 and q = "1 / 562949953421312"])
       (simp_all add: f8_42_def round_even_def Let_def power_int_def power_divide)
qed

lemma rounded_difference_meets_target:
  "fsub (Finite f10_6) (Finite f2_18) = Finite f8_42 \<and>
   fge (fsub (Finite f10_6) (Finite f2_18)) (Finite f8_42) \<and>
   f10_6 - f2_18 < f8_42"
proof -
  have "fsub (Finite f10_6) (Finite f2_18) = Finite f8_42"
    unfolding fsub.simps
    by (rule round64_eqI [where e = 3 and q = "1 / 562949953421312"])
       (simp_all add: f10_6_def f2_18_def f8_42_def round_even_def Let_def power_int_def
          power_divide)
  moreover have "f10_6 - f2_18 < f8_42"
    by (simp add: f10_6_def f2_18_def f8_42_def)
  ultimately show ?thesis by simp
qed

text \<open>
  A case the other way: \<^verbatim>\<open>1050.1 - 1000.0 >= 50.1\<close> is false in Python, because the value of
  the literal \<^verbatim>\<open>1050.1\<close> is below the decimal 1050.1 by more than the value of \<^verbatim>\<open>50.1\<close> is
  below 50.1; the model gives the same answer.
\<close>

lemma rounded_difference_misses_target:
  "round64 1050.1 = Finite f1050_1 \<and> round64 50.1 = Finite f50_1 \<and>
   fsub (Finite f1050_1) (Finite 1000) = Finite (110171065103155 / 2199023255552) \<and>
   \<not> fge (fsub (Finite f1050_1) (Finite 1000)) (Finite f50_1)"
proof -
  have a: "round64 1050.1 = Finite f1050_1"
    by (rule round64_eqI [where e = 10 and q = "1 / 4398046511104"])
       (simp_all add: f1050_1_def round_even_def Let_def power_int_def power_divide)
  have b: "round64 50.1 = Finite f50_1"
    by (rule round64_eqI [where e = 5 and q = "1 / 140737488355328"])
       (simp_all add: f50_1_def round_even_def Let_def power_int_def power_divide)
  have c: "fsub (Finite f1050_1) (Finite 1000) = Finite (110171065103155 / 2199023255552)"
    unfolding fsub.simps
    by (rule round64_eqI [where e = 5 and q = "1 / 140737488355328"])
       (simp_all add: f1050_1_def round_even_def Let_def power_int_def power_divide)
  have "\<not> fge (Finite (110171065103155 / 2199023255552)) (Finite f50_1)"
    by (simp add: f50_1_def)
  then show ?thesis using a b c by simp
qed

section \<open>Batch tracker\<close>

lemma calls_log_line [simp]: "calls (log_line m w) = calls w"
  by (simp add: log_line_def)

lemma calls_put [simp]: "calls (put m w) = calls w"
  by (simp add: put_def)

lemma calls_try_close:
  assumes "\<And>e v. calls (h e v) = calls v"
  shows "calls (try_close_all_positions tr h w) = calls w @ [CloseAllPositions]"
  using assms by (simp add: try_close_all_positions_def Let_def split: prod.splits option.splits)

lemma calls_batch_check:
  "calls (batch_check tr batch_target w) =
     calls w @ (if current_batch_trades w \<ge> batch_size w
                then GetAccountSummary #
                  (if fge (fsub (equity_or_zero (fst (get_account_summary tr (broker w))))
                             (batch_start_equity w)) batch_target
                   then [CloseAllPositions] else [])
                else [])"
  by (simp add: batch_check_def Let_def calls_try_close split: prod.splits)

lemma calls_tick:
  "\<exists>cs. calls (tick tr symbol tp sl size_lots strategy w) = calls w @ cs \<and> CloseAllPositions \<notin> set cs"
  by (simp add: tick_def Let_def split: prod.splits option.splits)

lemma tick_batch_fields:
  "current_batch_trades (tick tr symbol tp sl size_lots strategy w) = current_batch_trades w \<and>
   batch_start_equity (tick tr symbol tp sl size_lots strategy w) = batch_start_equity w \<and>
   total_trades (tick tr symbol tp sl size_lots strategy w) = total_trades w \<and>
   is_scalping (tick tr symbol tp sl size_lots strategy w) = is_scalping w \<and>
   batch_size (tick tr symbol tp sl size_lots strategy w) = batch_size w"
  by (simp add: tick_def Let_def put_def split: prod.splits option.splits)

lemma batch_check_reset:
  assumes "current_batch_trades w \<ge> batch_size w"
    and "fge (fsub (equity_or_zero (fst (get_account_summary tr (broker w))))
                (batch_start_equity w)) batch_target"
  shows "current_batch_trades (batch_check tr batch_target w) = 0 \<and>
     batch_start_equity (batch_check tr batch_target w) =
       equity_or_zero (fst (get_account_summary tr (broker w)))"
  using assms
  by (simp add: batch_check_def Let_def case_prod_beta)

text \<open>
  Claim C1. One iteration of the session loop calls \<open>close_all_positions\<close> if and only if,
  at the top of the iteration, the batch counter has reached the batch size and the equity of
  the account summary minus the batch start equity is at least the batch profit target,
  where the difference and the comparison are those of Python's floats (\<open>fsub\<close>, \<open>fge\<close>).
  Below the batch size no flatten occurs, whatever the equity is.
\<close>

theorem batch_flatten_iff:
  "CloseAllPositions \<in> set (new_calls w (scalp_loop_body tr symbol tp sl size_lots strategy batch_target w))
     \<longleftrightarrow> current_batch_trades w \<ge> batch_size w \<and>
         fge (fsub (equity_or_zero (fst (get_account_summary tr (broker w)))) (batch_start_equity w))
           batch_target"
proof -
  let ?v = "batch_check tr batch_target w"
  obtain cs where cs: "calls (tick tr symbol tp sl size_lots strategy ?v) = calls ?v @ cs"
    and no: "CloseAllPositions \<notin> set cs"
    using calls_tick by blast
  show ?thesis
    using no by (simp add: new_calls_def scalp_loop_body_def cs calls_batch_check)
qed

text \<open>
  The example of the specification: batch size 5, target 50, baseline 1000. After five trades
  an equity of 1050 flattens and one of 1049 does not; after four trades an equity of 2000
  does not. The last conjunct is the case above where the rounding decides: with a baseline
  of 2.18 and a target of 8.42, an equity of 10.6 flattens.
\<close>

theorem batch_flatten_iff_witness:
  "CloseAllPositions \<in> set (new_calls (sim_world 1050)
       (scalp_loop_body sim_trader ''EURUSD'' 10 5 1 sim_strategy (Finite 50) (sim_world 1050))) \<and>
   CloseAllPositions \<notin> set (new_calls (sim_world 1049)
       (scalp_loop_body sim_trader ''EURUSD'' 10 5 1 sim_strategy (Finite 50) (sim_world 1049))) \<and>
   CloseAllPositions \<notin> set (new_calls ((sim_world 2000)\<lparr>current_batch_trades := 4\<rparr>)
       (scalp_loop_body sim_trader ''EURUSD'' 10 5 1 sim_strategy (Finite 50)
          ((sim_world 2000)\<lparr>current_batch_trades := 4\<rparr>))) \<and>
   CloseAllPositions \<in> set (new_calls ((sim_world f10_6)\<lparr>batch_start_equity := Finite f2_18\<rparr>)
       (scalp_loop_body sim_trader ''EURUSD'' 10 5 1 sim_strategy (Finite f8_42)
          ((sim_world f10_6)\<lparr>batch_start_equity := Finite f2_18\<rparr>)))"
proof -
  have neq: "f10_6 \<noteq> 0" by (simp add: f10_6_def)
  show ?thesis
    using batch_flatten_iff [of "sim_world 1050" sim_trader "''EURUSD''" 10 5 1 sim_strategy "Finite 50"]
      batch_flatten_iff [of "sim_world 1049" sim_trader "''EURUSD''" 10 5 1 sim_strategy "Finite 50"]
      batch_flatten_iff [of "(sim_world 2000)\<lparr>current_batch_trades := 4\<rparr>" sim_trader
        "''EURUSD''" 10 5 1 sim_strategy "Finite 50"]
      batch_flatten_iff [of "(sim_world f10_6)\<lparr>batch_start_equity := Finite f2_18\<rparr>" sim_trader
        "''EURUSD''" 10 5 1 sim_strategy "Finite f8_42"]
      rounded_difference_meets_target neq
    by (simp add: sim_world_def sim_broker_def sim_trader_def init_def equity_or_zero_def
        fsub_1050_1000 fsub_1049_1000 del: fsub.simps)
qed

lemma calls_scalp_loop_body_flatten:
  assumes "current_batch_trades w \<ge> batch_size w"
    and "fge (fsub (equity_or_zero (fst (get_account_summary tr (broker w))))
                (batch_start_equity w)) batch_target"
  shows "take 2 (new_calls w (scalp_loop_body tr symbol tp sl size_lots strategy batch_target w)) =
           [GetAccountSummary, CloseAllPositions]"
proof -
  let ?v = "batch_check tr batch_target w"
  obtain cs where cs: "calls (tick tr symbol tp sl size_lots strategy ?v) = calls ?v @ cs"
    using calls_tick by blast
  show ?thesis
    using assms by (simp add: new_calls_def scalp_loop_body_def cs calls_batch_check)
qed

text \<open>
  Claim C2, as the code has it. When the batch counter has reached the batch size and the
  profit target is met, so that the iteration flattens, it resets the batch counter to 0 and
  sets the baseline to the equity observed before the flatten: the equity of the account
  summary that the iteration read first, from the trader's state at the top of the
  iteration, and compared with the target. The call of \<open>close_all_positions\<close> comes second.
\<close>

theorem flatten_resets_to_equity_read_before_close:
  assumes "current_batch_trades w \<ge> batch_size w"
    and "fge (fsub (equity_or_zero (fst (get_account_summary tr (broker w))))
                (batch_start_equity w)) batch_target"
  shows "current_batch_trades (scalp_loop_body tr symbol tp sl size_lots strategy batch_target w) = 0 \<and>
     batch_start_equity (scalp_loop_body tr symbol tp sl size_lots strategy batch_target w) =
       equity_or_zero (fst (get_account_summary tr (broker w))) \<and>
     take 2 (new_calls w (scalp_loop_body tr symbol tp sl size_lots strategy batch_target w)) =
       [GetAccountSummary, CloseAllPositions]"
  using batch_check_reset [OF assms] calls_scalp_loop_body_flatten [OF assms]
  by (simp add: scalp_loop_body_def tick_batch_fields)

theorem flatten_resets_to_equity_read_before_close_witness:
  "current_batch_trades
     (scalp_loop_body sim_trader ''EURUSD'' 10 5 1 sim_strategy (Finite 50) (sim_world 1050)) = 0 \<and>
   batch_start_equity
     (scalp_loop_body sim_trader ''EURUSD'' 10 5 1 sim_strategy (Finite 50) (sim_world 1050)) =
     Finite 1050 \<and>
   take 2 (new_calls (sim_world 1050)
     (scalp_loop_body sim_trader ''EURUSD'' 10 5 1 sim_strategy (Finite 50) (sim_world 1050))) =
     [GetAccountSummary, CloseAllPositions]"
proof -
  have a: "current_batch_trades (sim_world 1050) \<ge> batch_size (sim_world 1050)"
    by (simp add: sim_world_def init_def)
  have b: "fge (fsub (equity_or_zero (fst (get_account_summary sim_trader (broker (sim_world 1050)))))
                  (batch_start_equity (sim_world 1050))) (Finite 50)"
    by (simp add: sim_world_def sim_broker_def sim_trader_def init_def equity_or_zero_def
        fsub_1050_1000 del: fsub.simps)
  show ?thesis
    using flatten_resets_to_equity_read_before_close [OF a b, of "''EURUSD''" 10 5 1 sim_strategy]
    by (simp add: sim_world_def sim_broker_def sim_trader_def init_def equity_or_zero_def)
qed

text \<open>
  The claim as the specification states it fails. With a broker whose equity is 1050 before
  the close and 1049 after it, the batch check flattens and leaves the baseline at 1050,
  while the account summary right after the flatten reports 1049.
\<close>

theorem baseline_is_not_post_close_equity:
  "CloseAllPositions \<in> set (new_calls (sim_world 1050) (batch_check sim_trader (Finite 50) (sim_world 1050))) \<and>
   batch_start_equity (batch_check sim_trader (Finite 50) (sim_world 1050)) = Finite 1050 \<and>
   equity_or_zero (fst (get_account_summary sim_trader
      (broker (batch_check sim_trader (Finite 50) (sim_world 1050))))) = Finite 1049 \<and>
   batch_start_equity (batch_check sim_trader (Finite 50) (sim_world 1050)) \<noteq>
   equity_or_zero (fst (get_account_summary sim_trader
      (broker (batch_check sim_trader (Finite 50) (sim_world 1050)))))"
  by (simp add: batch_check_def try_close_all_positions_def put_def new_calls_def Let_def
      sim_world_def sim_broker_def sim_trader_def init_def equity_or_zero_def
      fsub_1050_1000 del: fsub.simps)

section \<open>Execution pipeline\<close>

text \<open>
  The session loop skips the tick when the price is \<open>None\<close> (lines 600 to 602), so every
  trade request that an iteration puts on the queue carries a price.
\<close>

lemma batch_check_msgs:
  "\<exists>ms. ui_queue (batch_check tr batch_target w) = ui_queue w @ ms \<and>
     (\<forall>m \<in> set ms. \<exists>d. m = QLog d)"
  by (simp add: batch_check_def try_close_all_positions_def put_def Let_def
      split: prod.splits option.splits)

lemma tick_msgs:
  "\<exists>ms. ui_queue (tick tr symbol tp sl size_lots strategy w) = ui_queue w @ ms \<and>
     (\<forall>m \<in> set ms. (\<exists>d. m = QLog d) \<or>
        (\<exists>side p so to c. m = QExecuteTrade (side, symbol, Some p, size_lots, tp, sl, so, to, c)))"
  by (simp add: tick_def put_def Let_def split: prod.splits option.splits)

lemma loop_publishes_only_priced_intents:
  "QExecuteTrade (side, symbol', None, rest) \<notin>
     set (new_msgs w (scalp_loop_body tr symbol tp sl size_lots strategy batch_target w))"
proof -
  let ?v = "batch_check tr batch_target w"
  obtain ms1 where a: "ui_queue ?v = ui_queue w @ ms1" "\<forall>m \<in> set ms1. \<exists>d. m = QLog d"
    using batch_check_msgs by blast
  obtain ms2 where b: "ui_queue (tick tr symbol tp sl size_lots strategy ?v) = ui_queue ?v @ ms2"
    "\<forall>m \<in> set ms2. (\<exists>d. m = QLog d) \<or>
        (\<exists>side p so to c. m = QExecuteTrade (side, symbol, Some p, size_lots, tp, sl, so, to, c))"
    using tick_msgs by blast
  have "new_msgs w (scalp_loop_body tr symbol tp sl size_lots strategy batch_target w) = ms1 @ ms2"
    using a(1) b(1) by (simp add: new_msgs_def scalp_loop_body_def)
  then show ?thesis using a(2) b(2) by auto
qed

text \<open>
  Claim C3. Every order that \<open>execute_trade\<close> submits carries the strategy's offset where the
  strategy gave one and the caller's default where the strategy's offset is \<open>None\<close>, for the
  target and for the stop independently; an offset of zero counts as given.
\<close>

theorem strategy_offset_precedence:
  "new_calls w (execute_trade tr side symbol (Some p) size_lots tp_pips_gui sl_pips_gui
       sl_offset_strategy tp_offset_strategy strategy_comment w) =
     [PlaceMarketOrder symbol size_lots side
        (case tp_offset_strategy of Some t \<Rightarrow> t | None \<Rightarrow> tp_pips_gui)
        (case sl_offset_strategy of Some s \<Rightarrow> s | None \<Rightarrow> sl_pips_gui)]"
  by (simp add: execute_trade_def new_calls_def Let_def split: prod.splits)

text \<open>
  The example of the specification: a strategy stop of 3 against a default of 5 gives 3; no
  strategy stop gives 5.
\<close>

theorem strategy_offset_precedence_witness:
  "new_calls (sim_world 1000)
     (execute_trade sim_trader ''buy'' ''EURUSD'' (Some 1.1) 1 10 5 (Some 3) None [] (sim_world 1000)) =
     [PlaceMarketOrder ''EURUSD'' 1 ''buy'' 10 3] \<and>
   new_calls (sim_world 1000)
     (execute_trade sim_trader ''buy'' ''EURUSD'' (Some 1.1) 1 10 5 None (Some 8) [] (sim_world 1000)) =
     [PlaceMarketOrder ''EURUSD'' 1 ''buy'' 8 5] \<and>
   new_calls (sim_world 1000)
     (execute_trade sim_trader ''buy'' ''EURUSD'' (Some 1.1) 1 10 5 (Some 0) (Some 0) [] (sim_world 1000)) =
     [PlaceMarketOrder ''EURUSD'' 1 ''buy'' 0 0]"
  using strategy_offset_precedence [of "sim_world 1000" sim_trader "''buy''" "''EURUSD''" "1.1" 1 10 5 "Some 3" None "[]"]
    strategy_offset_precedence [of "sim_world 1000" sim_trader "''buy''" "''EURUSD''" "1.1" 1 10 5 None "Some 8" "[]"]
    strategy_offset_precedence [of "sim_world 1000" sim_trader "''buy''" "''EURUSD''" "1.1" 1 10 5 "Some 0" "Some 0" "[]"]
  by simp

text \<open>
  Claim C5. With a null reference price \<open>execute_trade\<close> only appends the line that says
  why the trade is skipped: the trader is not called, so no order is submitted, the counters
  are as they were, and nothing is put back on the queue for a retry.
\<close>

theorem null_price_discards_intent:
  "execute_trade tr side symbol None size_lots tp_pips_gui sl_pips_gui
       sl_offset_strategy tp_offset_strategy strategy_comment w =
     w\<lparr>output_text := output_text w @ [TradeSkipped]\<rparr>"
  by (simp add: execute_trade_def log_line_def)

theorem null_price_discards_intent_witness:
  "(let w' = execute_trade sim_trader ''buy'' ''EURUSD'' None 1 10 5 (Some 3) None [] (sim_world 1000)
    in new_calls (sim_world 1000) w' = [] \<and> broker w' = broker (sim_world 1000) \<and>
       total_trades w' = 5 \<and> current_batch_trades w' = 5 \<and>
       ui_queue w' = [] \<and> output_text w' = [TradeSkipped])"
  using null_price_discards_intent [of sim_trader "''buy''" "''EURUSD''" 1 10 5 "Some 3" None "[]" "sim_world 1000"]
  by (simp add: new_calls_def sim_world_def init_def)

text \<open>
  Claim C6. With a reference price, the order is submitted once. If the broker reports
  success, \<open>total_trades\<close> and the batch counter each grow by one; if it reports failure,
  both counters are as they were and the line logged after the report carries the broker's
  message. Nothing else changes but the trader's state, the call trace and the log.
\<close>

theorem submission_counters:
  assumes "place_market_order tr symbol size_lots side
             (case tp_offset_strategy of Some t \<Rightarrow> t | None \<Rightarrow> tp_pips_gui)
             (case sl_offset_strategy of Some s \<Rightarrow> s | None \<Rightarrow> sl_pips_gui) (broker w)
           = ((success, message), b')"
  shows "execute_trade tr side symbol (Some p) size_lots tp_pips_gui sl_pips_gui
           sl_offset_strategy tp_offset_strategy strategy_comment w =
         (if success then
            w\<lparr>broker := b',
              calls := calls w @ [PlaceMarketOrder symbol size_lots side
                (case tp_offset_strategy of Some t \<Rightarrow> t | None \<Rightarrow> tp_pips_gui)
                (case sl_offset_strategy of Some s \<Rightarrow> s | None \<Rightarrow> sl_pips_gui)],
              output_text := output_text w @ [Attempting side size_lots symbol, OrderSuccessful message],
              total_trades := total_trades w + 1,
              trades_var := total_trades w + 1,
              current_batch_trades := current_batch_trades w + 1\<rparr>
          else
            w\<lparr>broker := b',
              calls := calls w @ [PlaceMarketOrder symbol size_lots side
                (case tp_offset_strategy of Some t \<Rightarrow> t | None \<Rightarrow> tp_pips_gui)
                (case sl_offset_strategy of Some s \<Rightarrow> s | None \<Rightarrow> sl_pips_gui)],
              output_text := output_text w @ [Attempting side size_lots symbol, OrderFailed message]\<rparr>)"
  using assms by (simp add: execute_trade_def log_line_def Let_def)

theorem submission_counters_witness:
  "(let w = sim_world 1000;
        w' = execute_trade sim_trader ''buy'' ''EURUSD'' (Some 1.1) 1 10 5 (Some 3) None [] w
    in total_trades w' = total_trades w + 1 \<and> current_batch_trades w' = current_batch_trades w + 1 \<and>
       output_text w' = [Attempting ''buy'' 1 ''EURUSD'', OrderSuccessful ''filled'']) \<and>
   (let w = (sim_world 1000)\<lparr>broker := (sim_broker 1000)\<lparr>sim_accept := False\<rparr>\<rparr>;
        w' = execute_trade sim_trader ''buy'' ''EURUSD'' (Some 1.1) 1 10 5 (Some 3) None [] w
    in total_trades w' = total_trades w \<and> current_batch_trades w' = current_batch_trades w \<and>
       output_text w' = [Attempting ''buy'' 1 ''EURUSD'', OrderFailed ''rejected''])"
proof -
  let ?w = "sim_world 1000"
  let ?v = "(sim_world 1000)\<lparr>broker := (sim_broker 1000)\<lparr>sim_accept := False\<rparr>\<rparr>"
  have a: "place_market_order sim_trader ''EURUSD'' 1 ''buy''
             (case None of Some t \<Rightarrow> t | None \<Rightarrow> 10) (case Some 3 of Some s \<Rightarrow> s | None \<Rightarrow> 5)
             (broker ?w) = ((True, ''filled''), broker ?w)"
    by (simp add: sim_trader_def sim_world_def sim_broker_def init_def)
  have b: "place_market_order sim_trader ''EURUSD'' 1 ''buy''
             (case None of Some t \<Rightarrow> t | None \<Rightarrow> 10) (case Some 3 of Some s \<Rightarrow> s | None \<Rightarrow> 5)
             (broker ?v) = ((False, ''rejected''), broker ?v)"
    by (simp add: sim_trader_def sim_world_def sim_broker_def init_def)
  show ?thesis
    using submission_counters [OF a, of "1.1" "[]"] submission_counters [OF b, of "1.1" "[]"]
    by (simp add: sim_world_def init_def)
qed

section \<open>Readiness gate\<close>

lemma readiness_loop_fst:
  "fst (readiness_loop required available (a, ms)) \<longleftrightarrow>
     a \<and> list_all (\<lambda>(tf, r). r \<le> get_or_zero available tf) required"
proof (induction required arbitrary: a ms)
  case Nil
  show ?case by simp
next
  case (Cons x xs)
  obtain tf r where x: "x = (tf, r)" by (cases x)
  show ?case
    unfolding x by (simp add: Let_def Cons.IH)
qed

lemma readiness_loop_snd:
  "snd (readiness_loop required available (a, ms)) =
     ms @ map (\<lambda>(tf, r). TfStatus tf (get_or_zero available tf) r) required"
  by (induction required arbitrary: a ms) (auto simp: Let_def)

text \<open>
  What the display shows once the trader is connected and a strategy is selected: the
  status messages with the suffix that \<open>all_ready\<close> selects, and a start button that is
  enabled only when the gate is ready and no session is running.
\<close>

lemma display_reports_readiness:
  assumes "is_connected tr (broker w)"
    and "map_of (strategy_map S) (strategy_var w) = Some strategy_instance"
  shows "data_readiness_var (update_data_readiness_display tr S w) =
           Status (snd (readiness (get_required_bars strategy_instance)
                     (fst (get_ohlc_bar_counts tr (symbol_of w) (broker w)))))
                  (fst (readiness (get_required_bars strategy_instance)
                     (fst (get_ohlc_bar_counts tr (symbol_of w) (broker w))))) \<and>
         start_button (update_data_readiness_display tr S w) =
           (if fst (readiness (get_required_bars strategy_instance)
                     (fst (get_ohlc_bar_counts tr (symbol_of w) (broker w)))) \<and> \<not> is_scalping w
            then Normal else Disabled)"
  using assms
  by (simp add: update_data_readiness_display_def log_line_def Let_def case_prod_beta)

text \<open>
  Claim C4. The gate reports ready exactly when every required timeframe has at least the
  required number of bars available, so one short timeframe makes it not ready whatever
  the others are; with no requirement at all it reports ready.
\<close>

theorem readiness_iff_all_satisfied:
  "(fst (readiness required available) \<longleftrightarrow>
      (\<forall>(tf, r) \<in> set required. r \<le> get_or_zero available tf)) \<and>
   fst (readiness [] available)"
  by (simp add: readiness_def readiness_loop_fst list_all_iff)

text \<open>
  The example of the specification: required 1m: 20 and 15s: 10, available 1m: 25 and
  15s: 9, is not ready.
\<close>

theorem readiness_iff_all_satisfied_witness:
  "\<not> fst (readiness [(''1m'', 20), (''15s'', 10)] [(''1m'', 25), (''15s'', 9)]) \<and>
   fst (readiness [(''1m'', 20), (''15s'', 10)] [(''1m'', 25), (''15s'', 10)]) \<and>
   fst (readiness [] [(''1m'', 25)])"
  using readiness_iff_all_satisfied [of "[(''1m'', 20), (''15s'', 10)]" "[(''1m'', 25), (''15s'', 9)]"]
    readiness_iff_all_satisfied [of "[(''1m'', 20), (''15s'', 10)]" "[(''1m'', 25), (''15s'', 10)]"]
    readiness_iff_all_satisfied [of "[]" "[(''1m'', 25)]"]
  by (simp add: get_or_zero_def)

text \<open>
  Claim C8. A required timeframe that the bar-count map does not hold counts as 0 available
  bars: if the strategy requires at least one bar on it, the gate reports not ready, and the
  status shows 0 of the required count.
\<close>

theorem missing_timeframe_counts_as_zero:
  assumes "(tf, r) \<in> set required" and "map_of available tf = None" and "1 \<le> r"
  shows "\<not> fst (readiness required available) \<and>
         TfStatus tf 0 r \<in> set (snd (readiness required available))"
proof -
  have ne: "required \<noteq> []" using assms(1) by auto
  have z: "get_or_zero available tf = 0" using assms(2) by (simp add: get_or_zero_def)
  have "\<not> list_all (\<lambda>(tf, r). r \<le> get_or_zero available tf) required"
    using assms(1,3) z by (auto simp: list_all_iff intro!: bexI [of _ "(tf, r)"])
  moreover have "TfStatus tf 0 r \<in> (\<lambda>(tf, r). TfStatus tf (get_or_zero available tf) r) ` set required"
    using assms(1) z by force
  ultimately show ?thesis
    using ne by (simp add: readiness_def readiness_loop_fst readiness_loop_snd)
qed

theorem missing_timeframe_counts_as_zero_witness:
  "\<not> fst (readiness [(''1m'', 20), (''15s'', 1)] [(''1m'', 25)]) \<and>
   TfStatus ''15s'' 0 1 \<in> set (snd (readiness [(''1m'', 20), (''15s'', 1)] [(''1m'', 25)]))"
proof -
  have a: "(''15s'', 1) \<in> set [(''1m'', 20), (''15s'', 1::int)]" by simp
  have b: "map_of [(''1m'', 25::int)] ''15s'' = None" by simp
  have c: "(1::int) \<le> 1" by simp
  show ?thesis using missing_timeframe_counts_as_zero [OF a b c] .
qed

section \<open>Stop command\<close>

text \<open>
  Claim C9. The stop command on a page that is not scalping changes nothing: neither the
  flag nor the buttons, and the trader is not called.
\<close>

theorem stop_when_idle_is_noop:
  "\<not> is_scalping w \<Longrightarrow> stop_scalping tr w = w"
  by (simp add: stop_scalping_def)

theorem stop_when_idle_is_noop_witness:
  "stop_scalping sim_trader (init (Finite 50) (sim_broker 1000)) = init (Finite 50) (sim_broker 1000)"
proof -
  have a: "\<not> is_scalping (init (Finite 50) (sim_broker 1000))" by (simp add: init_def)
  show ?thesis using stop_when_idle_is_noop [OF a] .
qed

section \<open>Effect of each operation on the flag, the counters and the call trace\<close>

lemma execute_trade_effect:
  "is_scalping (execute_trade tr side symbol price size_lots tp sl so to c w) = is_scalping w \<and>
   total_trades w \<le> total_trades (execute_trade tr side symbol price size_lots tp sl so to c w) \<and>
   current_batch_trades (execute_trade tr side symbol price size_lots tp sl so to c w) - current_batch_trades w =
     total_trades (execute_trade tr side symbol price size_lots tp sl so to c w) - total_trades w \<and>
   (\<exists>cs. calls (execute_trade tr side symbol price size_lots tp sl so to c w) = calls w @ cs \<and>
      CloseAllPositions \<notin> set cs)"
  by (simp add: execute_trade_def log_line_def Let_def split: prod.splits)

lemma dispatch_effect:
  "is_scalping (dispatch tr m w) = is_scalping w \<and>
   total_trades w \<le> total_trades (dispatch tr m w) \<and>
   current_batch_trades (dispatch tr m w) - current_batch_trades w =
     total_trades (dispatch tr m w) - total_trades w \<and>
   (\<exists>cs. calls (dispatch tr m w) = calls w @ cs \<and> CloseAllPositions \<notin> set cs)"
proof (cases m)
  case (QLog d)
  then show ?thesis by (simp add: log_line_def)
next
  case (QExecuteTrade t)
  obtain side symbol price size_lots tp sl so to c
    where t: "t = (side, symbol, price, size_lots, tp, sl, so, to, c)"
    by (cases t) auto
  show ?thesis
    unfolding QExecuteTrade t dispatch.simps by (rule execute_trade_effect)
qed

lemma fold_dispatch_effect:
  "is_scalping (fold (dispatch tr) ms w) = is_scalping w \<and>
   total_trades w \<le> total_trades (fold (dispatch tr) ms w) \<and>
   current_batch_trades (fold (dispatch tr) ms w) - current_batch_trades w =
     total_trades (fold (dispatch tr) ms w) - total_trades w \<and>
   (\<exists>cs. calls (fold (dispatch tr) ms w) = calls w @ cs \<and> CloseAllPositions \<notin> set cs)"
proof (induction ms arbitrary: w)
  case Nil
  show ?case by simp
next
  case (Cons m ms)
  let ?v = "dispatch tr m w"
  from dispatch_effect [of tr m w] obtain cs1 where
    a: "is_scalping ?v = is_scalping w" "total_trades w \<le> total_trades ?v"
       "current_batch_trades ?v - current_batch_trades w = total_trades ?v - total_trades w"
       "calls ?v = calls w @ cs1" "CloseAllPositions \<notin> set cs1"
    by blast
  from Cons.IH [of ?v] obtain cs2 where
    b: "is_scalping (fold (dispatch tr) ms ?v) = is_scalping ?v"
       "total_trades ?v \<le> total_trades (fold (dispatch tr) ms ?v)"
       "current_batch_trades (fold (dispatch tr) ms ?v) - current_batch_trades ?v =
          total_trades (fold (dispatch tr) ms ?v) - total_trades ?v"
       "calls (fold (dispatch tr) ms ?v) = calls ?v @ cs2" "CloseAllPositions \<notin> set cs2"
    by blast
  have "calls (fold (dispatch tr) ms ?v) = calls w @ (cs1 @ cs2) \<and> CloseAllPositions \<notin> set (cs1 @ cs2)"
    using a b by simp
  then have "\<exists>cs. calls (fold (dispatch tr) ms ?v) = calls w @ cs \<and> CloseAllPositions \<notin> set cs"
    by blast
  then show ?case using a b by simp
qed

lemma process_ui_queue_effect:
  "is_scalping (process_ui_queue tr w) = is_scalping w \<and>
   total_trades w \<le> total_trades (process_ui_queue tr w) \<and>
   current_batch_trades (process_ui_queue tr w) - current_batch_trades w =
     total_trades (process_ui_queue tr w) - total_trades w \<and>
   (\<exists>cs. calls (process_ui_queue tr w) = calls w @ cs \<and> CloseAllPositions \<notin> set cs)"
  using fold_dispatch_effect [of tr "ui_queue w" "w\<lparr>ui_queue := []\<rparr>"]
  by (simp add: process_ui_queue_def)

lemma update_data_readiness_display_effect:
  "is_scalping (update_data_readiness_display tr S w) = is_scalping w \<and>
   total_trades (update_data_readiness_display tr S w) = total_trades w \<and>
   current_batch_trades (update_data_readiness_display tr S w) = current_batch_trades w \<and>
   (\<exists>cs. calls (update_data_readiness_display tr S w) = calls w @ cs \<and> CloseAllPositions \<notin> set cs)"
  by (simp add: update_data_readiness_display_def log_line_def Let_def
      split: prod.splits option.splits)

lemma stop_scalping_effect:
  "is_scalping (stop_scalping tr w) = False \<and>
   total_trades (stop_scalping tr w) = total_trades w \<and>
   current_batch_trades (stop_scalping tr w) = current_batch_trades w \<and>
   calls (stop_scalping tr w) = calls w @ (if is_scalping w then [CloseAllPositions] else [])"
  by (simp add: stop_scalping_def try_close_all_positions_def toggle_scalping_ui_def log_line_def
      Let_def split: prod.splits option.splits)

lemma stop_scalping_log:
  "is_scalping w \<Longrightarrow>
   output_text (stop_scalping tr w) =
     output_text w @ (case fst (close_all_positions tr (broker w)) of None \<Rightarrow> [] | Some e \<Rightarrow> [ErrorClosing e])"
  by (simp add: stop_scalping_def try_close_all_positions_def toggle_scalping_ui_def log_line_def
      Let_def split: prod.splits option.splits)

lemma batch_check_effect:
  "is_scalping (batch_check tr batch_target w) = is_scalping w \<and>
   total_trades (batch_check tr batch_target w) = total_trades w \<and>
   (current_batch_trades (batch_check tr batch_target w) = 0 \<or>
    current_batch_trades (batch_check tr batch_target w) = current_batch_trades w)"
  by (simp add: batch_check_def try_close_all_positions_def put_def Let_def
      split: prod.splits option.splits)

lemma scalp_loop_body_effect:
  "is_scalping (scalp_loop_body tr symbol tp sl size_lots strategy batch_target w) = is_scalping w \<and>
   total_trades (scalp_loop_body tr symbol tp sl size_lots strategy batch_target w) = total_trades w \<and>
   (current_batch_trades (scalp_loop_body tr symbol tp sl size_lots strategy batch_target w) = 0 \<or>
    current_batch_trades (scalp_loop_body tr symbol tp sl size_lots strategy batch_target w) =
      current_batch_trades w)"
  using batch_check_effect [of tr batch_target w]
  by (simp add: scalp_loop_body_def tick_batch_fields)

lemma start_scalping_effect:
  "total_trades (fst (start_scalping tr S w)) = total_trades w \<and>
   (current_batch_trades (fst (start_scalping tr S w)) = 0 \<or>
    current_batch_trades (fst (start_scalping tr S w)) = current_batch_trades w)"
  by (simp add: start_scalping_def toggle_scalping_ui_def log_line_def Let_def
      split: prod.splits option.splits)

lemma start_scalping_flag:
  "is_scalping w \<Longrightarrow> is_scalping (fst (start_scalping tr S w))"
  by (simp add: start_scalping_def toggle_scalping_ui_def log_line_def Let_def
      split: prod.splits option.splits)

lemma run_op_effect:
  "total_trades w \<le> total_trades (run_op tr S op w) \<and>
   (current_batch_trades (run_op tr S op w) = 0 \<or>
    current_batch_trades (run_op tr S op w) - current_batch_trades w =
      total_trades (run_op tr S op w) - total_trades w)"
proof (cases op)
  case StopScalping
  show ?thesis using stop_scalping_effect [of tr w] by (simp add: StopScalping)
next
  case StartScalping
  show ?thesis using start_scalping_effect [of tr S w] by (auto simp: StartScalping)
next
  case ProcessUiQueue
  show ?thesis using process_ui_queue_effect [of tr w] by (simp add: ProcessUiQueue)
next
  case UpdateDataReadiness
  show ?thesis
    using update_data_readiness_display_effect [of tr S w] by (simp add: UpdateDataReadiness)
next
  case (Iteration symbol tp sl size_lots strategy batch_target)
  show ?thesis
    using scalp_loop_body_effect [of tr symbol tp sl size_lots strategy batch_target w]
    by (auto simp: Iteration)
next
  case (ExecuteTrade args)
  show ?thesis
    using dispatch_effect [of tr "QExecuteTrade args" w] by (simp add: ExecuteTrade)
qed

lemma run_op_flag:
  "op \<noteq> StartScalping \<Longrightarrow>
   is_scalping (run_op tr S op w) = (is_scalping w \<and> op \<noteq> StopScalping)"
proof (cases op)
  case StopScalping
  show ?thesis using stop_scalping_effect [of tr w] by (simp add: StopScalping)
next
  case StartScalping
  assume "op \<noteq> StartScalping"
  then show ?thesis using StartScalping by simp
next
  case ProcessUiQueue
  show ?thesis using process_ui_queue_effect [of tr w] by (simp add: ProcessUiQueue)
next
  case UpdateDataReadiness
  show ?thesis
    using update_data_readiness_display_effect [of tr S w] by (simp add: UpdateDataReadiness)
next
  case (Iteration symbol tp sl size_lots strategy batch_target)
  show ?thesis
    using scalp_loop_body_effect [of tr symbol tp sl size_lots strategy batch_target w]
    by (simp add: Iteration)
next
  case (ExecuteTrade args)
  show ?thesis
    using dispatch_effect [of tr "QExecuteTrade args" w] by (simp add: ExecuteTrade)
qed

lemma run_op_keeps_running:
  assumes "op \<noteq> StopScalping" and "is_scalping w"
  shows "is_scalping (run_op tr S op w)"
proof (cases "op = StartScalping")
  case True
  then show ?thesis using assms(2) by (simp add: start_scalping_flag)
next
  case False
  then show ?thesis using assms by (simp add: run_op_flag)
qed

lemma run_ops_flag:
  "StartScalping \<notin> set ops \<Longrightarrow>
   is_scalping (run_ops tr S ops w) = (is_scalping w \<and> StopScalping \<notin> set ops)"
proof (induction ops arbitrary: w)
  case Nil
  show ?case by (simp add: run_ops_def)
next
  case (Cons op ops)
  have a: "is_scalping (run_op tr S op w) = (is_scalping w \<and> op \<noteq> StopScalping)"
    using Cons.prems by (intro run_op_flag) auto
  have "is_scalping (run_ops tr S ops (run_op tr S op w)) =
          (is_scalping (run_op tr S op w) \<and> StopScalping \<notin> set ops)"
    using Cons.prems by (intro Cons.IH) auto
  then show ?case using a by (auto simp: run_ops_def)
qed

lemma run_ops_keeps_running:
  "StopScalping \<notin> set ops \<Longrightarrow> is_scalping w \<Longrightarrow> is_scalping (run_ops tr S ops w)"
proof (induction ops arbitrary: w)
  case Nil
  then show ?case by (simp add: run_ops_def)
next
  case (Cons op ops)
  have "is_scalping (run_op tr S op w)"
    using Cons.prems by (intro run_op_keeps_running) auto
  then have "is_scalping (run_ops tr S ops (run_op tr S op w))"
    using Cons.prems by (intro Cons.IH) auto
  then show ?case by (simp add: run_ops_def)
qed

section \<open>Stop command on a running session\<close>

lemma scalp_loop_stopped:
  "\<not> is_scalping w \<Longrightarrow>
   scalp_loop tr S symbol tp sl size_lots strategy batch_target sched w = Some w"
  by (cases sched) simp_all

text \<open>
  The stop command on a scalping page unsets the flag, calls \<open>close_all_positions\<close> exactly
  once and, if that raises, logs the error and returns; a worker that tests the flag in the
  state it leaves returns at once.
\<close>

lemma stop_scalping_on_running_session:
  assumes "is_scalping w"
  shows "\<not> is_scalping (stop_scalping tr w) \<and>
         new_calls w (stop_scalping tr w) = [CloseAllPositions] \<and>
         output_text (stop_scalping tr w) =
           output_text w @ (case fst (close_all_positions tr (broker w)) of
                              None \<Rightarrow> [] | Some e \<Rightarrow> [ErrorClosing e]) \<and>
         scalp_loop tr S symbol tp sl size_lots strategy batch_target sched (stop_scalping tr w) =
           Some (stop_scalping tr w)"
proof -
  have s1: "\<not> is_scalping (stop_scalping tr w)"
    using stop_scalping_effect [of tr w] by simp
  have s2: "new_calls w (stop_scalping tr w) = [CloseAllPositions]"
    using stop_scalping_effect [of tr w] assms by (simp add: new_calls_def)
  have s3: "scalp_loop tr S symbol tp sl size_lots strategy batch_target sched (stop_scalping tr w) =
           Some (stop_scalping tr w)"
    using s1 by (rule scalp_loop_stopped)
  show ?thesis
    using s1 s2 s3 stop_scalping_log [OF assms, of tr] by simp
qed

text \<open>A run in which \<open>close_all_positions\<close> raises: the stop command logs the error and returns.\<close>

lemma stop_logs_close_failure:
  "output_text (stop_scalping sim_trader sim_failing) = [ErrorClosing ''timeout''] \<and>
   \<not> is_scalping (stop_scalping sim_trader sim_failing) \<and>
   new_calls sim_failing (stop_scalping sim_trader sim_failing) = [CloseAllPositions]"
  by (simp add: stop_scalping_def try_close_all_positions_def toggle_scalping_ui_def log_line_def
      new_calls_def sim_failing_def sim_world_def sim_broker_def sim_trader_def init_def Let_def)

text \<open>
  When the stop command runs after the iteration in flight and no begin command runs before
  the worker's next test of the flag, the worker returns at that test, whatever the rest of
  the schedule is.
\<close>

lemma stop_without_restart_ends_worker:
  assumes "is_scalping w" and "StopScalping \<in> set ops" and "StartScalping \<notin> set ops"
  shows "scalp_loop tr S symbol tp sl size_lots strategy batch_target (ops # sched) w =
           Some (run_ops tr S ops (scalp_loop_body tr symbol tp sl size_lots strategy batch_target w))"
proof -
  let ?v = "scalp_loop_body tr symbol tp sl size_lots strategy batch_target w"
  have "\<not> is_scalping (run_ops tr S ops ?v)"
    using assms(2,3) by (simp add: run_ops_flag)
  then show ?thesis
    using assms(1) by (simp add: scalp_loop_stopped)
qed

text \<open>
  A worker that finds the flag set keeps running for as long as no stop command runs,
  whatever else does: the begin command sets the flag again for every worker, the one of the
  session that was stopped included.
\<close>

lemma worker_runs_until_next_stop:
  "is_scalping w \<Longrightarrow> \<forall>ops \<in> set sched. StopScalping \<notin> set ops \<Longrightarrow>
   scalp_loop tr S symbol tp sl size_lots strategy batch_target sched w = None"
proof (induction sched arbitrary: w)
  case Nil
  then show ?case by simp
next
  case (Cons ops sched)
  let ?v = "scalp_loop_body tr symbol tp sl size_lots strategy batch_target w"
  have "is_scalping ?v"
    using Cons.prems(1) scalp_loop_body_effect [of tr symbol tp sl size_lots strategy batch_target w]
    by simp
  then have "is_scalping (run_ops tr S ops ?v)"
    using Cons.prems(2) by (intro run_ops_keeps_running) auto
  then have "scalp_loop tr S symbol tp sl size_lots strategy batch_target sched (run_ops tr S ops ?v) = None"
    using Cons.prems(2) by (intro Cons.IH) auto
  then show ?case using Cons.prems(1) by simp
qed

text \<open>
  Claim C7 fails on the code when the begin command follows the stop command before the
  worker's next test of the flag (the worker sleeps one second between two tests, and the
  stop command enables the begin button at once). In the run below the session is stopped
  after its first iteration and begun again: the worker of the stopped session finds the
  flag set, runs its next iteration and puts a new trade request on the queue, and it is
  still running at the end of the schedule.
\<close>

theorem restart_keeps_stopped_worker_running:
  "(let v = run_ops sim_trader sim_strategies [StopScalping, StartScalping]
              (scalp_loop_body sim_trader ''EURUSD'' 10 5 1 sim_strategy (Finite 50) (sim_world 1000));
        v' = scalp_loop_body sim_trader ''EURUSD'' 10 5 1 sim_strategy (Finite 50) v
    in is_scalping v \<and>
       count_list (new_calls (sim_world 1000) v) CloseAllPositions = 1 \<and>
       new_msgs v v' =
         [QLog (StrategySignal ''buy'' ''EURUSD''),
          QExecuteTrade (''buy'', ''EURUSD'', Some 1.1, 1, 10, 5, Some 3, None, [])]) \<and>
   scalp_loop sim_trader sim_strategies ''EURUSD'' 10 5 1 sim_strategy (Finite 50)
     [[StopScalping, StartScalping], [], []] (sim_world 1000) = None"
proof -
  let ?w = "sim_world 1000"
  let ?u = "scalp_loop_body sim_trader ''EURUSD'' 10 5 1 sim_strategy (Finite 50) ?w"
  let ?v = "run_ops sim_trader sim_strategies [StopScalping, StartScalping] ?u"
  let ?v' = "scalp_loop_body sim_trader ''EURUSD'' 10 5 1 sim_strategy (Finite 50) ?v"
  have run: "is_scalping ?w" by (simp add: sim_world_def init_def)
  have a: "is_scalping ?v \<and> count_list (new_calls ?w ?v) CloseAllPositions = 1 \<and>
       new_msgs ?v ?v' =
         [QLog (StrategySignal ''buy'' ''EURUSD''),
          QExecuteTrade (''buy'', ''EURUSD'', Some 1.1, 1, 10, 5, Some 3, None, [])]"
    by (simp add: run_ops_def scalp_loop_body_def batch_check_def tick_def stop_scalping_def
        start_scalping_def try_close_all_positions_def toggle_scalping_ui_def strategy_map_def
        sim_strategies_def sim_strategy_def sim_trader_def sim_broker_def sim_world_def init_def
        log_line_def put_def equity_or_zero_def symbol_of_def new_calls_def new_msgs_def Let_def
        fsub_same del: fsub.simps)
  have b: "scalp_loop sim_trader sim_strategies ''EURUSD'' 10 5 1 sim_strategy (Finite 50)
     [[StopScalping, StartScalping], [], []] ?w = scalp_loop sim_trader sim_strategies ''EURUSD'' 10 5 1
       sim_strategy (Finite 50) [[], []] ?v"
    using run by simp
  have "scalp_loop sim_trader sim_strategies ''EURUSD'' 10 5 1 sim_strategy (Finite 50) [[], []] ?v = None"
    using a by (intro worker_runs_until_next_stop) auto
  then show ?thesis using a b by (simp add: Let_def)
qed

section \<open>Session counters\<close>

lemma run_ops_invariant:
  "0 \<le> current_batch_trades w \<Longrightarrow> current_batch_trades w \<le> total_trades w \<Longrightarrow>
   0 \<le> current_batch_trades (run_ops tr S ops w) \<and>
   current_batch_trades (run_ops tr S ops w) \<le> total_trades (run_ops tr S ops w)"
proof (induction ops arbitrary: w)
  case Nil
  then show ?case by (simp add: run_ops_def)
next
  case (Cons op ops)
  have "0 \<le> current_batch_trades (run_op tr S op w) \<and>
        current_batch_trades (run_op tr S op w) \<le> total_trades (run_op tr S op w)"
    using run_op_effect [of w tr S op] Cons.prems by auto
  then show ?case
    using Cons.IH [of "run_op tr S op w"] by (simp add: run_ops_def)
qed

text \<open>
  Claim C10. Both counters start at 0. In every state reached from the initial state by any
  sequence of operations, the batch counter is between 0 and \<open>total_trades\<close>; every
  operation leaves \<open>total_trades\<close> at least as large as it was, and either resets the
  batch counter to 0 or adds to it exactly what it adds to \<open>total_trades\<close>.
\<close>

theorem batch_counter_le_total:
  "current_batch_trades (init t b) = 0 \<and> total_trades (init t b) = 0 \<and>
   (let w = run_ops tr S ops (init t b); w' = run_op tr S op w
    in 0 \<le> current_batch_trades w \<and> current_batch_trades w \<le> total_trades w \<and>
       total_trades w \<le> total_trades w' \<and>
       (current_batch_trades w' = 0 \<or>
        current_batch_trades w' - current_batch_trades w = total_trades w' - total_trades w))"
proof -
  have i: "current_batch_trades (init t b) = 0" "total_trades (init t b) = 0"
    by (simp_all add: init_def)
  show ?thesis
    using i run_ops_invariant [of "init t b" tr S ops]
      run_op_effect [of "run_ops tr S ops (init t b)" tr S op]
    by (simp add: Let_def)
qed

lemma sim_ops_counters:
  "total_trades (run_ops sim_trader sim_strategies sim_ops (init (Finite 50) (sim_broker 1000))) = 1 \<and>
   current_batch_trades (run_ops sim_trader sim_strategies sim_ops (init (Finite 50) (sim_broker 1000))) = 1"
  by (simp add: sim_ops_def run_ops_def start_scalping_def strategy_map_def sim_strategies_def
      sim_strategy_def sim_trader_def sim_broker_def init_def log_line_def put_def
      toggle_scalping_ui_def equity_or_zero_def symbol_of_def scalp_loop_body_def batch_check_def
      tick_def process_ui_queue_def execute_trade_def Let_def)

theorem batch_counter_le_total_witness:
  "(let w = run_ops sim_trader sim_strategies sim_ops (init (Finite 50) (sim_broker 1000));
        w' = run_op sim_trader sim_strategies StopScalping w
    in current_batch_trades w = 1 \<and> total_trades w = 1 \<and>
       current_batch_trades w \<le> total_trades w \<and> total_trades w \<le> total_trades w')"
  using batch_counter_le_total [of "Finite 50" "sim_broker 1000" sim_trader sim_strategies sim_ops
      StopScalping] sim_ops_counters
  by (simp add: Let_def)

end
